theory Spec2Isabelle
  imports Complex_Main "HOL-Library.Multiset"
begin

section \<open>Data model\<close>

text \<open>
  The application of \<^verbatim>\<open>script.js\<close> keeps its whole state in the refs created at the top of
  \<^verbatim>\<open>setup()\<close>. The model collects them in one record and every function of the script
  becomes a function from state to state. What the script takes from outside (the
  clock, \<^verbatim>\<open>generateId()\<close>, \<^verbatim>\<open>Math.random()\<close>) is a parameter of the function that uses it.

  Text that the user types or picks (names, card faces, the search box, emoji) is a list
  of UTF-16 code units; identifiers, time stamps and the tags of the application are
  plain \<^typ>\<open>string\<close>s. A field that may be \<^verbatim>\<open>null\<close> or missing is an \<^typ>\<open>'a option\<close>.
\<close>

type_synonym utf16 = "nat list"

record deck =
  deck_id :: string
  deck_name :: utf16
  emoji :: utf16
  color :: string
  deck_createdAt :: string

record card =
  card_id :: string
  deckId :: string
  card_front :: utf16
  card_back :: utf16
  difficulty :: "string option"
  reviewCount :: "nat option"
  lastReviewed :: "string option"
  createdAt :: string

record deck_form =
  form_name :: utf16
  form_emoji :: utf16
  form_color :: string

record card_form =
  form_front :: utf16
  form_back :: utf16

record toast =
  toast_id :: nat
  message :: string
  toast_type :: string
  icon :: string

text \<open>The object written to \<^verbatim>\<open>localStorage\<close> by \<^verbatim>\<open>saveData\<close>.\<close>

record snapshot =
  snap_decks :: "deck list"
  snap_cards :: "card list"
  snap_totalSessions :: nat

text \<open>
  \<^verbatim>\<open>confirmCallback\<close> holds one of the two closures built by \<^verbatim>\<open>deleteDeck\<close> and
  \<^verbatim>\<open>deleteCard\<close>; the closure is represented by its captured id.
\<close>

datatype callback = DeleteDeckCb string | DeleteCardCb string

datatype error = TypeError

record app =
  view :: string
  sidebarCollapsed :: bool
  searchQuery :: utf16
  selectedDeck :: "deck option"
  decks :: "deck list"
  cards :: "card list"
  totalSessions :: nat
  showDeckModal :: bool
  showCardModal :: bool
  showConfirm :: bool
  confirmMessage :: string
  confirmCallback :: "callback option"
  editingDeck :: "deck option"
  editingCard :: "card option"
  deckForm :: deck_form
  cardForm :: card_form
  studyCards :: "card list"
  studyIndex :: int
  isFlipped :: bool
  studyCorrect :: nat
  studyWrong :: nat
  toasts :: "toast list"
  toastId :: nat
  storage :: "snapshot option"

text \<open>
  The study queue \<^const>\<open>studyCards\<close> holds the same card objects as \<^const>\<open>cards\<close>, so a rating,
  which writes the difficulty, the review count and the date of the card in the store,
  shows in the card of the queue as well. The model keeps the queue as a list of card
  values, which is what the queue holds when it is built; after a rating the three
  review fields of a card of the model's queue may be out of date. The script reads
  nothing but \<^verbatim>\<open>id\<close> through the queue and never writes an \<^verbatim>\<open>id\<close>. Whatever is stated
  below of the queue of a session that has been rated is stated of the ids of its cards,
  their order and their number, which are the same in the script and in the model.
\<close>

section \<open>Library functions of the language\<close>

text \<open>
  \<^verbatim>\<open>String.prototype.trim\<close> removes white space and line terminators at both ends: TAB, LF,
  VT, FF, CR, SP, NBSP, U+1680, U+2000 to U+200A, U+2028, U+2029, U+202F, U+205F,
  U+3000 and U+FEFF.
\<close>

definition isWhiteSpace :: "nat \<Rightarrow> bool" where
  "isWhiteSpace u =
     (u \<in> {9, 10, 11, 12, 13, 32, 160, 5760, 8232, 8233, 8239, 8287, 12288, 65279}
      \<or> (8192 \<le> u \<and> u \<le> 8202))"

definition trim :: "utf16 \<Rightarrow> utf16" where
  "trim s = rev (dropWhile isWhiteSpace (rev (dropWhile isWhiteSpace s)))"

text \<open>\<^verbatim>\<open>Array.prototype.findIndex\<close>; \<^const>\<open>None\<close> is the result \<^verbatim>\<open>-1\<close>.\<close>

fun findIndex :: "('a \<Rightarrow> bool) \<Rightarrow> 'a list \<Rightarrow> nat option" where
  "findIndex p [] = None"
| "findIndex p (x # xs) =
     (if p x then Some 0 else map_option Suc (findIndex p xs))"

text \<open>
  \<^verbatim>\<open>Array.prototype.sort\<close> with a comparison function. The result of the comparison
  function is a number or \<^verbatim>\<open>NaN\<close>, here \<^const>\<open>None\<close>; the sort reads \<^verbatim>\<open>NaN\<close> as \<open>+0\<close>
  (\<open>sortCompare\<close>). For a consistent comparison function the language fixes the result:
  the stable sort. The model is the stable insertion sort driven by the comparison
  function, where an element goes in front of the first element it does not compare
  greater than. For a comparison function that is not consistent the language leaves the
  order to the engine, and the model gives one of the orders an engine may give.
\<close>

definition sortCompare :: "('a \<Rightarrow> 'a \<Rightarrow> int option) \<Rightarrow> 'a \<Rightarrow> 'a \<Rightarrow> int" where
  "sortCompare cmp x y = (case cmp x y of None \<Rightarrow> 0 | Some v \<Rightarrow> v)"

fun insertBy :: "('a \<Rightarrow> 'a \<Rightarrow> int option) \<Rightarrow> 'a \<Rightarrow> 'a list \<Rightarrow> 'a list" where
  "insertBy cmp x [] = [x]"
| "insertBy cmp x (y # ys) =
     (if sortCompare cmp x y \<le> 0 then x # y # ys else y # insertBy cmp x ys)"

definition arraySort :: "('a \<Rightarrow> 'a \<Rightarrow> int option) \<Rightarrow> 'a list \<Rightarrow> 'a list" where
  "arraySort cmp xs = foldr (insertBy cmp) xs []"

section \<open>Persistence and toasts\<close>

definition saveData :: "app \<Rightarrow> app" where
  "saveData st =
     st\<lparr>storage := Some \<lparr>snap_decks = decks st, snap_cards = cards st,
                          snap_totalSessions = totalSessions st\<rparr>\<rparr>"

text \<open>
  \<^verbatim>\<open>watch([decks, cards, totalSessions], saveData, { deep: true })\<close>: after a handler has
  run, the data is saved when one of the three watched refs has changed. The model
  compares the values before and after. The watcher of the framework also runs when a
  handler has assigned a new array with the old content; for a handler that assigns none
  of the three refs, which are the only ones the watcher is applied to below, the two
  agree.
\<close>

definition watch :: "app \<Rightarrow> app \<Rightarrow> app" where
  "watch before after =
     (if decks after = decks before \<and> cards after = cards before
         \<and> totalSessions after = totalSessions before
      then after else saveData after)"

definition iconMap :: "(string \<times> string) list" where
  "iconMap = [(''success'', ''fas fa-check-circle''),
              (''error'', ''fas fa-circle-exclamation''),
              (''info'', ''fas fa-circle-info'')]"

definition showToast :: "string \<Rightarrow> string \<Rightarrow> app \<Rightarrow> app" where
  "showToast msg ty st =
     (let i = toastId st + 1;
          ic = (case map_of iconMap ty of Some s \<Rightarrow> s | None \<Rightarrow> ''fas fa-circle-info'')
      in st\<lparr>toastId := i,
            toasts := toasts st @ [\<lparr>toast_id = i, message = msg, toast_type = ty, icon = ic\<rparr>]\<rparr>)"

text \<open>The timer callback of \<^verbatim>\<open>showToast\<close>, run three seconds later.\<close>

definition expireToast :: "nat \<Rightarrow> app \<Rightarrow> app" where
  "expireToast i st = st\<lparr>toasts := filter (\<lambda>t. toast_id t \<noteq> i) (toasts st)\<rparr>"

section \<open>Deck and card methods\<close>

text \<open>
  \<^verbatim>\<open>saveDeck\<close>. \<open>newId\<close> is the value of \<^verbatim>\<open>generateId()\<close> and \<open>now\<close> that of
  \<^verbatim>\<open>new Date().toISOString()\<close>. An update spreads the form over the deck, so it stores
  the name as typed; a creation stores the trimmed name.
\<close>

definition saveDeck :: "string \<Rightarrow> string \<Rightarrow> app \<Rightarrow> app" where
  "saveDeck newId now st =
     (let f = deckForm st in
      if trim (form_name f) = [] then st
      else
        (let st1 =
           (case editingDeck st of
              Some e \<Rightarrow>
                (case findIndex (\<lambda>d. deck_id d = deck_id e) (decks st) of
                   Some idx \<Rightarrow>
                     showToast ''Deck updated successfully!'' ''success''
                       (st\<lparr>decks := (decks st)[idx := (decks st ! idx)
                              \<lparr>deck_name := form_name f, emoji := form_emoji f,
                               color := form_color f\<rparr>]\<rparr>)
                 | None \<Rightarrow> st)
            | None \<Rightarrow>
                showToast ''Deck created!'' ''success''
                  (st\<lparr>decks := decks st @
                     [\<lparr>deck_id = newId, deck_name = trim (form_name f),
                       emoji = form_emoji f, color = form_color f,
                       deck_createdAt = now\<rparr>]\<rparr>))
         in st1\<lparr>showDeckModal := False\<rparr>))"

definition deleteDeck :: "string \<Rightarrow> app \<Rightarrow> app" where
  "deleteDeck did st =
     st\<lparr>confirmMessage := ''Are you sure you want to delete this deck and all its cards?'',
        confirmCallback := Some (DeleteDeckCb did),
        showConfirm := True\<rparr>"

definition selectDeck :: "deck \<Rightarrow> app \<Rightarrow> app" where
  "selectDeck d st = st\<lparr>selectedDeck := Some d\<rparr>"

text \<open>
  \<^verbatim>\<open>saveCard\<close>. A creation reads \<^verbatim>\<open>selectedDeck.value.id\<close> while it builds the new card;
  with no deck selected this throws before anything is stored.
\<close>

definition saveCard :: "string \<Rightarrow> string \<Rightarrow> app \<Rightarrow> error + app" where
  "saveCard newId now st =
     (let f = cardForm st in
      if trim (form_front f) = [] \<or> trim (form_back f) = [] then Inr st
      else
        (case editingCard st of
           Some e \<Rightarrow>
             (case findIndex (\<lambda>c. card_id c = card_id e) (cards st) of
                Some idx \<Rightarrow>
                  Inr ((showToast ''Card updated!'' ''success''
                         (st\<lparr>cards := (cards st)[idx := (cards st ! idx)
                                \<lparr>card_front := trim (form_front f),
                                 card_back := trim (form_back f)\<rparr>]\<rparr>))
                       \<lparr>showCardModal := False\<rparr>)
              | None \<Rightarrow> Inr (st\<lparr>showCardModal := False\<rparr>))
         | None \<Rightarrow>
             (case selectedDeck st of
                None \<Rightarrow> Inl TypeError
              | Some d \<Rightarrow>
                  Inr ((showToast ''Card added!'' ''success''
                         (st\<lparr>cards := cards st @
                            [\<lparr>card_id = newId, deckId = deck_id d,
                              card_front = trim (form_front f), card_back = trim (form_back f),
                              difficulty = Some ''new'', reviewCount = Some 0,
                              lastReviewed = None, createdAt = now\<rparr>]\<rparr>))
                       \<lparr>showCardModal := False\<rparr>))))"

definition deleteCard :: "string \<Rightarrow> app \<Rightarrow> app" where
  "deleteCard cid st =
     st\<lparr>confirmMessage := ''Are you sure you want to delete this card?'',
        confirmCallback := Some (DeleteCardCb cid),
        showConfirm := True\<rparr>"

text \<open>The bodies of the two closures stored in \<^verbatim>\<open>confirmCallback\<close>.\<close>

fun runCallback :: "callback \<Rightarrow> app \<Rightarrow> app" where
  "runCallback (DeleteDeckCb did) st =
     (let st1 = st\<lparr>cards := filter (\<lambda>c. deckId c \<noteq> did) (cards st)\<rparr>;
          st2 = st1\<lparr>decks := filter (\<lambda>d. deck_id d \<noteq> did) (decks st1)\<rparr>;
          st3 = (case selectedDeck st2 of
                   Some d \<Rightarrow> if deck_id d = did then st2\<lparr>selectedDeck := None\<rparr> else st2
                 | None \<Rightarrow> st2)
      in showToast ''Deck deleted.'' ''info'' st3)"
| "runCallback (DeleteCardCb cid) st =
     showToast ''Card deleted.'' ''info''
       (st\<lparr>cards := filter (\<lambda>c. card_id c \<noteq> cid) (cards st)\<rparr>)"

definition confirmAction :: "app \<Rightarrow> app" where
  "confirmAction st =
     (let st1 = (case confirmCallback st of
                   Some cb \<Rightarrow> (runCallback cb st)\<lparr>confirmCallback := None\<rparr>
                 | None \<Rightarrow> st)
      in st1\<lparr>showConfirm := False\<rparr>)"

section \<open>Study mode\<close>

text \<open>
  \<^verbatim>\<open>shuffleArray\<close>. \<open>rnd i\<close> stands for the outcome of \<^verbatim>\<open>Math.random()\<close> in the round with
  loop index \<open>i\<close>; \<^verbatim>\<open>Math.floor(Math.random() * (i + 1))\<close> is an index between \<open>0\<close> and
  \<open>i\<close>, here \<open>rnd i mod (i + 1)\<close>, and each such index is the choice of some \<open>rnd\<close>.
  The loop runs from \<open>length - 1\<close> down to \<open>1\<close>.
\<close>

fun shuffleLoop :: "(nat \<Rightarrow> nat) \<Rightarrow> nat \<Rightarrow> 'a list \<Rightarrow> 'a list" where
  "shuffleLoop rnd 0 a = a"
| "shuffleLoop rnd (Suc n) a =
     (let i = Suc n; j = rnd i mod (i + 1)
      in shuffleLoop rnd n (a[i := a ! j, j := a ! i]))"

definition shuffleArray :: "(nat \<Rightarrow> nat) \<Rightarrow> 'a list \<Rightarrow> 'a list" where
  "shuffleArray rnd arr = shuffleLoop rnd (length arr - 1) arr"

text \<open>
  The comparison function of \<^verbatim>\<open>startStudyMode\<close>:
  \<^verbatim>\<open>(priority[a.difficulty] ?? 1) - (priority[b.difficulty] ?? 1)\<close>. The lookup
  \<^verbatim>\<open>priority[d]\<close> finds the four members of the table and, for a name that every object
  inherits, the inherited member, a function or an object. For any other text, and for
  a missing difficulty, it finds nothing and \<^verbatim>\<open>?? 1\<close> gives 1. \<open>priorityOf\<close> is the number
  found, and \<^const>\<open>None\<close> where an inherited member is found: a difference with that member
  is \<^verbatim>\<open>NaN\<close>.
\<close>

definition priority :: "(string \<times> int) list" where
  "priority = [(''hard'', 0), (''new'', 1), (''medium'', 2), (''easy'', 3)]"

definition inheritedNames :: "string list" where
  "inheritedNames =
     [''constructor'', ''__proto__'', ''hasOwnProperty'', ''isPrototypeOf'',
      ''propertyIsEnumerable'', ''toLocaleString'', ''toString'', ''valueOf'',
      ''__defineGetter__'', ''__defineSetter__'', ''__lookupGetter__'',
      ''__lookupSetter__'']"

definition priorityOf :: "string option \<Rightarrow> int option" where
  "priorityOf d =
     (case d of
        None \<Rightarrow> Some 1
      | Some s \<Rightarrow>
          (case map_of priority s of
             Some p \<Rightarrow> Some p
           | None \<Rightarrow> if s \<in> set inheritedNames then None else Some 1))"

definition compareCards :: "card \<Rightarrow> card \<Rightarrow> int option" where
  "compareCards a b =
     (case (priorityOf (difficulty a), priorityOf (difficulty b)) of
        (Some p, Some q) \<Rightarrow> Some (p - q)
      | _ \<Rightarrow> None)"

definition resetSession :: "card list \<Rightarrow> app \<Rightarrow> app" where
  "resetSession q st =
     st\<lparr>studyCards := q, studyIndex := 0, isFlipped := False,
        studyCorrect := 0, studyWrong := 0\<rparr>"

definition startStudyMode :: "(nat \<Rightarrow> nat) \<Rightarrow> app \<Rightarrow> app" where
  "startStudyMode rnd st =
     (if length (cards st) = 0
      then showToast ''No cards to study! Create some cards first.'' ''error'' st
      else (let sorted = arraySort compareCards (cards st)
            in (resetSession (shuffleArray rnd sorted) st)\<lparr>view := ''study''\<rparr>))"

definition studyDeck :: "(nat \<Rightarrow> nat) \<Rightarrow> deck \<Rightarrow> app \<Rightarrow> app" where
  "studyDeck rnd d st =
     (let deckCards = filter (\<lambda>c. deckId c = deck_id d) (cards st)
      in if length deckCards = 0
         then showToast ''No cards in this deck!'' ''error'' st
         else (resetSession (shuffleArray rnd deckCards) st)\<lparr>view := ''study''\<rparr>)"

definition flipCard :: "app \<Rightarrow> app" where
  "flipCard st = st\<lparr>isFlipped := \<not> isFlipped st\<rparr>"

text \<open>
  \<^verbatim>\<open>rateCard\<close>. The queue is read at \<^verbatim>\<open>studyIndex\<close>; out of range the read gives
  \<^verbatim>\<open>undefined\<close>, and \<^verbatim>\<open>card.id\<close> then throws inside the callback of \<^verbatim>\<open>findIndex\<close>, which
  is called only when the store has a card. \<open>now\<close> is the time of the rating.
\<close>

definition currentCard :: "app \<Rightarrow> card option" where
  "currentCard st =
     (if 0 \<le> studyIndex st \<and> studyIndex st < int (length (studyCards st))
      then Some (studyCards st ! nat (studyIndex st)) else None)"

definition review :: "string \<Rightarrow> string \<Rightarrow> card \<Rightarrow> card" where
  "review rating now c =
     c\<lparr>difficulty := Some rating,
       reviewCount := Some ((case reviewCount c of None \<Rightarrow> 0 | Some n \<Rightarrow> n) + 1),
       lastReviewed := Some now\<rparr>"

definition rateCard :: "string \<Rightarrow> string \<Rightarrow> app \<Rightarrow> error + app" where
  "rateCard rating now st =
     (case (currentCard st, cards st) of
        (None, _ # _) \<Rightarrow> Inl TypeError
      | (cur, _) \<Rightarrow>
          (let idx = (case cur of
                        None \<Rightarrow> None
                      | Some c \<Rightarrow> findIndex (\<lambda>x. card_id x = card_id c) (cards st));
               st1 = (case idx of
                        Some k \<Rightarrow> st\<lparr>cards := (cards st)[k := review rating now (cards st ! k)]\<rparr>
                      | None \<Rightarrow> st);
               st2 = (if rating = ''hard''
                      then st1\<lparr>studyWrong := studyWrong st1 + 1\<rparr>
                      else st1\<lparr>studyCorrect := studyCorrect st1 + 1\<rparr>);
               st3 = st2\<lparr>studyIndex := studyIndex st2 + 1, isFlipped := False\<rparr>
           in Inr (if studyIndex st3 \<ge> int (length (studyCards st3))
                   then st3\<lparr>totalSessions := totalSessions st3 + 1\<rparr>
                   else st3)))"

definition restartStudy :: "(nat \<Rightarrow> nat) \<Rightarrow> app \<Rightarrow> app" where
  "restartStudy rnd st = resetSession (shuffleArray rnd (studyCards st)) st"

definition exitStudy :: "app \<Rightarrow> app" where
  "exitStudy st = st\<lparr>view := ''decks''\<rparr>"

text \<open>
  \<^verbatim>\<open>Math.round\<close> rounds to the nearest integer, a half upwards, as \<^const>\<open>round\<close> does.
  The script divides in binary floating point and the model divides exactly, so the two
  can differ by one where the exact percentage ends in one half. They agree with no
  ratings (the result is 0 without a division) and at 2 correct of 3, the two values
  used below.
\<close>

definition studyAccuracy :: "app \<Rightarrow> int" where
  "studyAccuracy st =
     (let total = studyCorrect st + studyWrong st
      in if total = 0 then 0
         else round (rat_of_nat (studyCorrect st) / rat_of_nat total * 100))"

section \<open>Session states\<close>

text \<open>
  The three states of a session, read off the tests the script makes: the study view is
  open (\<^verbatim>\<open>view === 'study'\<close>), and the index is below the length of the queue
  (\<^verbatim>\<open>handleKeydown\<close>) or has reached it (\<^verbatim>\<open>rateCard\<close>).
\<close>

datatype phase = Idle | InProgress | Complete

definition phase :: "app \<Rightarrow> phase" where
  "phase st =
     (if view st \<noteq> ''study'' then Idle
      else if studyIndex st < int (length (studyCards st)) then InProgress
      else Complete)"

definition sessionInv :: "app \<Rightarrow> bool" where
  "sessionInv st = (0 \<le> studyIndex st \<and> studyIndex st \<le> int (length (studyCards st)))"

text \<open>A run of ratings, each with its time stamp; it stops at the first exception.\<close>

fun rateAll :: "(string \<times> string) list \<Rightarrow> app \<Rightarrow> error + app" where
  "rateAll [] st = Inr st"
| "rateAll ((rating, now) # rs) st =
     (case rateCard rating now st of
        Inl e \<Rightarrow> Inl e
      | Inr st' \<Rightarrow> rateAll rs st')"

text \<open>The fields of a session, and the data of the store with what has been persisted.\<close>

definition sessionFields :: "app \<Rightarrow> card list \<times> int \<times> bool \<times> nat \<times> nat" where
  "sessionFields st =
     (studyCards st, studyIndex st, isFlipped st, studyCorrect st, studyWrong st)"

definition storeFields :: "app \<Rightarrow> deck list \<times> card list \<times> nat \<times> snapshot option" where
  "storeFields st = (decks st, cards st, totalSessions st, storage st)"

section \<open>The queue as the specification describes it\<close>

text \<open>
  The specification builds the queue of either start mode from the source cards by a
  stable sort on the priority followed by the shuffle, with the priorities hard 0, new
  1, medium 2, easy 3 and with any other or missing difficulty counted as new.
  \<open>specPriority\<close> and \<open>specQueue\<close> follow these words and are compared below with what
  \<^const>\<open>startStudyMode\<close> and \<^const>\<open>studyDeck\<close> store.
\<close>

definition deckSource :: "deck \<Rightarrow> app \<Rightarrow> card list" where
  "deckSource d st = filter (\<lambda>c. deckId c = deck_id d) (cards st)"





section \<open>Example states\<close>

definition asText :: "string \<Rightarrow> utf16" where
  "asText s = map of_char s"

text \<open>The values the refs are created with in \<^verbatim>\<open>setup()\<close>, with nothing stored yet.\<close>

definition initialApp :: app where
  "initialApp =
     \<lparr>view = ''decks'', sidebarCollapsed = False, searchQuery = [],
      selectedDeck = None, decks = [], cards = [], totalSessions = 0,
      showDeckModal = False, showCardModal = False, showConfirm = False,
      confirmMessage = '''', confirmCallback = None,
      editingDeck = None, editingCard = None,
      deckForm = \<lparr>form_name = [], form_emoji = [55357, 56538], form_color = ''#6c5ce7''\<rparr>,
      cardForm = \<lparr>form_front = [], form_back = []\<rparr>,
      studyCards = [], studyIndex = 0, isFlipped = False,
      studyCorrect = 0, studyWrong = 0,
      toasts = [], toastId = 0, storage = None\<rparr>"

definition deckSpanish :: deck where
  "deckSpanish =
     \<lparr>deck_id = ''d1'', deck_name = asText ''Spanish'', emoji = [55357, 56538],
      color = ''#6c5ce7'', deck_createdAt = ''2024-01-01T00:00:00.000Z''\<rparr>"

definition deckMaths :: deck where
  "deckMaths =
     \<lparr>deck_id = ''d2'', deck_name = asText ''Maths'', emoji = [55357, 56528],
      color = ''#00b894'', deck_createdAt = ''2024-01-02T00:00:00.000Z''\<rparr>"

definition cardHola :: card where
  "cardHola =
     \<lparr>card_id = ''c1'', deckId = ''d1'', card_front = asText ''hola'',
      card_back = asText ''hello'', difficulty = Some ''easy'', reviewCount = Some 2,
      lastReviewed = Some ''2024-01-05T00:00:00.000Z'',
      createdAt = ''2024-01-01T00:00:00.000Z''\<rparr>"

definition cardAdios :: card where
  "cardAdios =
     \<lparr>card_id = ''c2'', deckId = ''d1'', card_front = asText ''adios'',
      card_back = asText ''goodbye'', difficulty = Some ''hard'', reviewCount = Some 1,
      lastReviewed = Some ''2024-01-05T00:00:00.000Z'',
      createdAt = ''2024-01-01T00:00:00.000Z''\<rparr>"

definition cardPi :: card where
  "cardPi =
     \<lparr>card_id = ''c3'', deckId = ''d2'', card_front = asText ''pi'',
      card_back = asText ''3.14159'', difficulty = None, reviewCount = None,
      lastReviewed = None, createdAt = ''2024-01-02T00:00:00.000Z''\<rparr>"

definition storeApp :: app where
  "storeApp =
     initialApp\<lparr>decks := [deckSpanish, deckMaths],
                cards := [cardHola, cardAdios, cardPi],
                selectedDeck := Some deckSpanish\<rparr>"

definition sessionApp :: app where
  "sessionApp = storeApp\<lparr>view := ''study'', studyCards := [cardHola, cardAdios, cardPi]\<rparr>"

text \<open>A session whose queue still holds two cards that have been deleted from the store.\<close>

definition orphanApp :: app where
  "orphanApp = sessionApp\<lparr>cards := [cardPi], decks := [deckMaths], selectedDeck := None\<rparr>"



text \<open>A complete session: the index has reached the end of the queue.\<close>

definition doneApp :: app where
  "doneApp = sessionApp\<lparr>studyIndex := 3, studyCorrect := 2, studyWrong := 1, isFlipped := True\<rparr>"

text \<open>The store with the card form filled in for a new card of the selected deck.\<close>

definition formApp :: app where
  "formApp =
     storeApp\<lparr>cardForm := \<lparr>form_front = asText '' gracias'', form_back = asText ''thanks ''\<rparr>,
              showCardModal := True\<rparr>"

text \<open>The store with blank text in both forms, while a deck is being edited.\<close>

definition blankApp :: app where
  "blankApp =
     storeApp\<lparr>deckForm := \<lparr>form_name = asText ''  '', form_emoji = [55357, 56538],
                            form_color = ''#6c5ce7''\<rparr>,
              cardForm := \<lparr>form_front = asText ''  '', form_back = asText ''thanks ''\<rparr>,
              editingDeck := Some deckSpanish\<rparr>"

text \<open>The random choices with which every round of the shuffle swaps a place with itself.\<close>

definition noSwap :: "nat \<Rightarrow> nat" where
  "noSwap i = i"

definition threeRatings :: "(string \<times> string) list" where
  "threeRatings =
     [(''hard'', ''2024-02-01T10:00:00.000Z''),
      (''medium'', ''2024-02-01T10:00:05.000Z''),
      (''easy'', ''2024-02-01T10:00:09.000Z'')]"

section \<open>Facts about the library functions and about one rating\<close>

lemma findIndex_None: "(\<forall>x \<in> set xs. \<not> p x) \<Longrightarrow> findIndex p xs = None"
  by (induction xs) simp_all

lemma rateCard_current:
  assumes "0 \<le> studyIndex st" and "studyIndex st < int (length (studyCards st))"
  shows "\<exists>st'. rateCard r now st = Inr st'
     \<and> studyIndex st' = studyIndex st + 1
     \<and> map card_id (studyCards st') = map card_id (studyCards st)
     \<and> length (studyCards st') = length (studyCards st)
     \<and> view st' = view st
     \<and> isFlipped st' = False
     \<and> studyWrong st' = (if r = ''hard'' then studyWrong st + 1 else studyWrong st)
     \<and> studyCorrect st' = (if r = ''hard'' then studyCorrect st else studyCorrect st + 1)
     \<and> totalSessions st' =
         (if studyIndex st + 1 = int (length (studyCards st))
          then totalSessions st + 1 else totalSessions st)"
  using assms
  by (auto simp: rateCard_def currentCard_def Let_def split: option.splits list.splits)

lemma rateCard_counters:
  assumes "rateCard r now st = Inr st'"
  shows "studyWrong st' = (if r = ''hard'' then studyWrong st + 1 else studyWrong st)
     \<and> studyCorrect st' = (if r = ''hard'' then studyCorrect st else studyCorrect st + 1)"
  using assms
  by (auto simp: rateCard_def Let_def split: option.splits list.splits if_splits)

lemma rateAll_steps:
  "0 \<le> studyIndex st \<Longrightarrow>
   studyIndex st + int (length rs) \<le> int (length (studyCards st)) \<Longrightarrow>
   \<exists>st'. rateAll rs st = Inr st'
     \<and> studyIndex st' = studyIndex st + int (length rs)
     \<and> map card_id (studyCards st') = map card_id (studyCards st)
     \<and> length (studyCards st') = length (studyCards st)
     \<and> view st' = view st
     \<and> studyWrong st' = studyWrong st + length (filter (\<lambda>p. fst p = ''hard'') rs)
     \<and> studyCorrect st' = studyCorrect st + length (filter (\<lambda>p. fst p \<noteq> ''hard'') rs)
     \<and> totalSessions st' =
         (if rs \<noteq> [] \<and> studyIndex st + int (length rs) = int (length (studyCards st))
          then totalSessions st + 1 else totalSessions st)"
proof (induction rs arbitrary: st)
  case Nil
  show ?case by simp
next
  case (Cons p rs)
  obtain r now where p: "p = (r, now)" by (cases p)
  from Cons.prems have lt: "studyIndex st < int (length (studyCards st))" by simp
  from rateCard_current[OF Cons.prems(1) lt, of r now]
  obtain st1 where s1: "rateCard r now st = Inr st1"
    and i1: "studyIndex st1 = studyIndex st + 1"
    and q1: "map card_id (studyCards st1) = map card_id (studyCards st)"
    and l1: "length (studyCards st1) = length (studyCards st)"
    and v1: "view st1 = view st"
    and w1: "studyWrong st1 = (if r = ''hard'' then studyWrong st + 1 else studyWrong st)"
    and c1: "studyCorrect st1 = (if r = ''hard'' then studyCorrect st else studyCorrect st + 1)"
    and t1: "totalSessions st1 =
         (if studyIndex st + 1 = int (length (studyCards st))
          then totalSessions st + 1 else totalSessions st)"
    by blast
  have "0 \<le> studyIndex st1" using i1 Cons.prems(1) by simp
  moreover have "studyIndex st1 + int (length rs) \<le> int (length (studyCards st1))"
    using i1 l1 Cons.prems(2) by simp
  ultimately obtain st' where r': "rateAll rs st1 = Inr st'"
    and i': "studyIndex st' = studyIndex st1 + int (length rs)"
    and q': "map card_id (studyCards st') = map card_id (studyCards st1)"
    and l': "length (studyCards st') = length (studyCards st1)"
    and v': "view st' = view st1"
    and w': "studyWrong st' = studyWrong st1 + length (filter (\<lambda>p. fst p = ''hard'') rs)"
    and c': "studyCorrect st' = studyCorrect st1 + length (filter (\<lambda>p. fst p \<noteq> ''hard'') rs)"
    and t': "totalSessions st' =
         (if rs \<noteq> [] \<and> studyIndex st1 + int (length rs) = int (length (studyCards st1))
          then totalSessions st1 + 1 else totalSessions st1)"
    using Cons.IH[of st1] by blast
  have "rateAll (p # rs) st = Inr st'" using p s1 r' by simp
  moreover have "studyIndex st' = studyIndex st + int (length (p # rs))" using i' i1 by simp
  moreover have "map card_id (studyCards st') = map card_id (studyCards st)"
    using q' q1 by simp
  moreover have "length (studyCards st') = length (studyCards st)" using l' l1 by simp
  moreover have "view st' = view st" using v' v1 by simp
  moreover have "studyWrong st' = studyWrong st + length (filter (\<lambda>p. fst p = ''hard'') (p # rs))"
    using w' w1 p by simp
  moreover have "studyCorrect st' = studyCorrect st + length (filter (\<lambda>p. fst p \<noteq> ''hard'') (p # rs))"
    using c' c1 p by simp
  moreover have "totalSessions st' =
         (if p # rs \<noteq> [] \<and> studyIndex st + int (length (p # rs)) = int (length (studyCards st))
          then totalSessions st + 1 else totalSessions st)"
    using t' t1 i1 l1 Cons.prems(2) by (cases rs) auto
  ultimately show ?case by blast
qed

section \<open>Rating a whole queue\<close>

text \<open>
  C1. A session at index 0 in the state InProgress whose queue has N cards is rated N
  times. Every rating returns; the session is then Complete with index N, its queue
  has the same N cards by id in the same order, and \<^verbatim>\<open>totalSessions\<close> has grown by exactly
  one. After each shorter run of k < N ratings the session is still InProgress at index
  k with a current card, and \<^verbatim>\<open>totalSessions\<close> is what it was, so the one increment is
  made by the last rating.
\<close>

theorem rate_whole_queue_completes_once:
  assumes "phase st = InProgress" and "studyIndex st = 0"
    and "length rs = length (studyCards st)"
  shows "\<exists>st'. rateAll rs st = Inr st'
     \<and> phase st' = Complete
     \<and> map card_id (studyCards st') = map card_id (studyCards st)
     \<and> studyIndex st' = int (length (studyCards st'))
     \<and> studyIndex st' = int (length (studyCards st))
     \<and> totalSessions st' = totalSessions st + 1
     \<and> (\<forall>k < length rs. \<exists>sk. rateAll (take k rs) st = Inr sk
           \<and> phase sk = InProgress \<and> currentCard sk \<noteq> None
           \<and> studyIndex sk = int k
           \<and> totalSessions sk = totalSessions st)"
proof -
  from assms(1) have v: "view st = ''study''"
    by (simp add: phase_def split: if_splits)
  from assms(1,2) have ne: "studyCards st \<noteq> []"
    by (simp add: phase_def split: if_splits)
  with assms(3) have rs: "rs \<noteq> []" by auto
  have b0: "0 \<le> studyIndex st" using assms(2) by simp
  have "studyIndex st + int (length rs) \<le> int (length (studyCards st))"
    using assms(2,3) by simp
  from rateAll_steps[OF b0 this] obtain st' where r: "rateAll rs st = Inr st'"
    and i: "studyIndex st' = studyIndex st + int (length rs)"
    and q: "map card_id (studyCards st') = map card_id (studyCards st)"
    and l: "length (studyCards st') = length (studyCards st)"
    and vv: "view st' = view st"
    and t: "totalSessions st' =
         (if rs \<noteq> [] \<and> studyIndex st + int (length rs) = int (length (studyCards st))
          then totalSessions st + 1 else totalSessions st)"
    by blast
  have fin: "phase st' = Complete
     \<and> map card_id (studyCards st') = map card_id (studyCards st)
     \<and> studyIndex st' = int (length (studyCards st'))
     \<and> studyIndex st' = int (length (studyCards st))
     \<and> totalSessions st' = totalSessions st + 1"
    using i q l vv t v rs assms(2,3) by (simp add: phase_def)
  have mid: "\<exists>sk. rateAll (take k rs) st = Inr sk
           \<and> phase sk = InProgress \<and> currentCard sk \<noteq> None
           \<and> studyIndex sk = int k
           \<and> totalSessions sk = totalSessions st" if k: "k < length rs" for k
  proof -
    have "studyIndex st + int (length (take k rs)) \<le> int (length (studyCards st))"
      using assms(2,3) k by simp
    from rateAll_steps[OF b0 this] obtain sk where rk: "rateAll (take k rs) st = Inr sk"
      and ik: "studyIndex sk = studyIndex st + int (length (take k rs))"
      and lk: "length (studyCards sk) = length (studyCards st)"
      and vk: "view sk = view st"
      and tk: "totalSessions sk =
         (if take k rs \<noteq> [] \<and> studyIndex st + int (length (take k rs)) = int (length (studyCards st))
          then totalSessions st + 1 else totalSessions st)"
      by blast
    have "phase sk = InProgress \<and> currentCard sk \<noteq> None
        \<and> studyIndex sk = int k \<and> totalSessions sk = totalSessions st"
      using ik lk vk tk v k assms(2,3) by (simp add: phase_def currentCard_def)
    with rk show ?thesis by blast
  qed
  from r fin mid show ?thesis by blast
qed

theorem rate_whole_queue_completes_once_witness:
  "phase sessionApp = InProgress \<and> studyIndex sessionApp = 0
   \<and> length threeRatings = length (studyCards sessionApp)
   \<and> (\<exists>st'. rateAll threeRatings sessionApp = Inr st'
        \<and> phase st' = Complete
        \<and> map card_id (studyCards st') = [''c1'', ''c2'', ''c3'']
        \<and> studyIndex st' = 3
        \<and> totalSessions st' = totalSessions sessionApp + 1)"
proof -
  have h1: "phase sessionApp = InProgress"
    by (simp add: phase_def sessionApp_def storeApp_def initialApp_def)
  have h2: "studyIndex sessionApp = 0"
    by (simp add: sessionApp_def storeApp_def initialApp_def)
  have h3: "length threeRatings = length (studyCards sessionApp)"
    by (simp add: threeRatings_def sessionApp_def)
  have len: "int (length (studyCards sessionApp)) = 3"
    by (simp add: sessionApp_def)
  have ids: "map card_id (studyCards sessionApp) = [''c1'', ''c2'', ''c3'']"
    by (simp add: sessionApp_def cardHola_def cardAdios_def cardPi_def)
  from rate_whole_queue_completes_once[OF h1 h2 h3]
  obtain st' where r: "rateAll threeRatings sessionApp = Inr st'"
    and c: "phase st' = Complete"
    and q: "map card_id (studyCards st') = map card_id (studyCards sessionApp)"
    and i: "studyIndex st' = int (length (studyCards sessionApp))"
    and t: "totalSessions st' = totalSessions sessionApp + 1"
    by blast
  have "rateAll threeRatings sessionApp = Inr st'
        \<and> phase st' = Complete
        \<and> map card_id (studyCards st') = [''c1'', ''c2'', ''c3'']
        \<and> studyIndex st' = 3
        \<and> totalSessions st' = totalSessions sessionApp + 1"
    using r c q i t len ids by simp
  then have "\<exists>st'. rateAll threeRatings sessionApp = Inr st'
        \<and> phase st' = Complete
        \<and> map card_id (studyCards st') = [''c1'', ''c2'', ''c3'']
        \<and> studyIndex st' = 3
        \<and> totalSessions st' = totalSessions sessionApp + 1"
    by (rule exI)
  with h1 h2 h3 show ?thesis by blast
qed

section \<open>Counting ratings\<close>

lemma accuracy_two_of_three: "round (rat_of_nat 2 / rat_of_nat (2 + 1) * 100) = 67"
  by (simp add: round_def floor_eq_iff)

lemma sessionApp_fields:
  "studyCorrect sessionApp = 0" "studyWrong sessionApp = 0" "studyIndex sessionApp = 0"
  "studyCards sessionApp = [cardHola, cardAdios, cardPi]" "view sessionApp = ''study''"
  "cards sessionApp = [cardHola, cardAdios, cardPi]" "totalSessions sessionApp = 0"
  "isFlipped sessionApp = False"
  by (simp_all add: sessionApp_def storeApp_def initialApp_def)

text \<open>
  C4. A rating is accepted whenever a current card is available, and every accepted
  rating makes exactly one count: the rating \<^verbatim>\<open>hard\<close> adds one to \<^verbatim>\<open>studyWrong\<close> and
  leaves \<^verbatim>\<open>studyCorrect\<close>, any other rating (\<^verbatim>\<open>medium\<close>, \<^verbatim>\<open>easy\<close>) adds one to
  \<^verbatim>\<open>studyCorrect\<close> and leaves \<^verbatim>\<open>studyWrong\<close>. The accuracy is 0 while nothing has been
  rated, and after the ratings hard, medium, easy of a fresh session the counts are 2
  correct and 1 wrong and the accuracy is 67.
\<close>

theorem hard_counts_wrong_others_correct:
  "(currentCard st \<noteq> None \<longrightarrow> (\<exists>st'. rateCard rating now st = Inr st'))
   \<and> (\<forall>st'. rateCard rating now st = Inr st' \<longrightarrow>
         studyWrong st' = (if rating = ''hard'' then studyWrong st + 1 else studyWrong st)
       \<and> studyCorrect st' = (if rating = ''hard'' then studyCorrect st else studyCorrect st + 1))
   \<and> (studyCorrect st = 0 \<and> studyWrong st = 0 \<longrightarrow> studyAccuracy st = 0)
   \<and> (studyCorrect st = 0 \<and> studyWrong st = 0 \<and> 0 \<le> studyIndex st
        \<and> studyIndex st + 3 \<le> int (length (studyCards st)) \<longrightarrow>
        (\<exists>st'. rateAll [(''hard'', t1), (''medium'', t2), (''easy'', t3)] st = Inr st'
           \<and> studyCorrect st' = 2 \<and> studyWrong st' = 1 \<and> studyAccuracy st' = 67))"
proof (intro conjI impI allI)
  assume "currentCard st \<noteq> None"
  then have "0 \<le> studyIndex st" and "studyIndex st < int (length (studyCards st))"
    by (simp_all add: currentCard_def split: if_splits)
  from rateCard_current[OF this] show "\<exists>st'. rateCard rating now st = Inr st'" by blast
next
  fix st' assume r: "rateCard rating now st = Inr st'"
  from rateCard_counters[OF r]
  show "studyWrong st' = (if rating = ''hard'' then studyWrong st + 1 else studyWrong st)"
    and "studyCorrect st' = (if rating = ''hard'' then studyCorrect st else studyCorrect st + 1)"
    by simp_all
next
  assume "studyCorrect st = 0 \<and> studyWrong st = 0"
  then show "studyAccuracy st = 0" by (simp add: studyAccuracy_def)
next
  assume a: "studyCorrect st = 0 \<and> studyWrong st = 0 \<and> 0 \<le> studyIndex st
        \<and> studyIndex st + 3 \<le> int (length (studyCards st))"
  let ?rs = "[(''hard'', t1), (''medium'', t2), (''easy'', t3)]"
  from a have b0: "0 \<le> studyIndex st" by simp
  from a have "studyIndex st + int (length ?rs) \<le> int (length (studyCards st))" by simp
  from rateAll_steps[OF b0 this] obtain st' where r: "rateAll ?rs st = Inr st'"
    and w: "studyWrong st' = studyWrong st + length (filter (\<lambda>p. fst p = ''hard'') ?rs)"
    and c: "studyCorrect st' = studyCorrect st + length (filter (\<lambda>p. fst p \<noteq> ''hard'') ?rs)"
    by blast
  from w a have w1: "studyWrong st' = 1" by simp
  from c a have c2: "studyCorrect st' = 2" by simp
  have "studyAccuracy st' = 67"
    using accuracy_two_of_three by (simp add: studyAccuracy_def w1 c2)
  with r w1 c2
  show "\<exists>st'. rateAll ?rs st = Inr st'
           \<and> studyCorrect st' = 2 \<and> studyWrong st' = 1 \<and> studyAccuracy st' = 67"
    by blast
qed

theorem hard_counts_wrong_others_correct_witness:
  "currentCard sessionApp \<noteq> None
   \<and> (\<exists>st'. rateCard ''medium'' ''2024-02-01T10:00:00.000Z'' sessionApp = Inr st'
         \<and> studyWrong st' = 0 \<and> studyCorrect st' = 1)
   \<and> studyCorrect sessionApp = 0 \<and> studyWrong sessionApp = 0
   \<and> studyAccuracy sessionApp = 0
   \<and> 0 \<le> studyIndex sessionApp
   \<and> studyIndex sessionApp + 3 \<le> int (length (studyCards sessionApp))
   \<and> (\<exists>st'. rateAll threeRatings sessionApp = Inr st'
         \<and> studyCorrect st' = 2 \<and> studyWrong st' = 1 \<and> studyAccuracy st' = 67)"
proof -
  have cur: "currentCard sessionApp \<noteq> None"
    by (simp add: currentCard_def sessionApp_fields)
  note th = hard_counts_wrong_others_correct[of sessionApp "''medium''" "''2024-02-01T10:00:00.000Z''"
      "''2024-02-01T10:00:00.000Z''" "''2024-02-01T10:00:05.000Z''" "''2024-02-01T10:00:09.000Z''"]
  from th cur obtain s1 where s1: "rateCard ''medium'' ''2024-02-01T10:00:00.000Z'' sessionApp = Inr s1"
    by blast
  with th have "studyWrong s1 = 0 \<and> studyCorrect s1 = 1"
    by (simp add: sessionApp_fields)
  with s1 have one: "\<exists>st'. rateCard ''medium'' ''2024-02-01T10:00:00.000Z'' sessionApp = Inr st'
         \<and> studyWrong st' = 0 \<and> studyCorrect st' = 1" by blast
  have pre: "studyCorrect sessionApp = 0 \<and> studyWrong sessionApp = 0 \<and> 0 \<le> studyIndex sessionApp
        \<and> studyIndex sessionApp + 3 \<le> int (length (studyCards sessionApp))"
    by (simp add: sessionApp_fields)
  with th have three: "\<exists>st'. rateAll threeRatings sessionApp = Inr st'
         \<and> studyCorrect st' = 2 \<and> studyWrong st' = 1 \<and> studyAccuracy st' = 67"
    unfolding threeRatings_def by blast
  from th pre have "studyAccuracy sessionApp = 0" by blast
  with cur one pre three show ?thesis by blast
qed

section \<open>Rating a card that is no longer in the store\<close>

lemma rateCard_session:
  assumes "rateCard r now st = Inr st'"
  shows "studyIndex st' = studyIndex st + 1 \<and> isFlipped st' = False
     \<and> map card_id (studyCards st') = map card_id (studyCards st)
     \<and> length (studyCards st') = length (studyCards st) \<and> view st' = view st"
  using assms
  by (auto simp: rateCard_def Let_def split: option.splits list.splits if_splits)

lemma rateCard_missing:
  assumes "currentCard st = Some c" and "\<forall>x \<in> set (cards st). card_id x \<noteq> card_id c"
  shows "\<exists>st'. rateCard r now st = Inr st' \<and> cards st' = cards st \<and> decks st' = decks st"
proof -
  have "findIndex (\<lambda>x. card_id x = card_id c) (cards st) = None"
    using assms(2) by (intro findIndex_None) simp
  with assms(1) show ?thesis
    by (simp add: rateCard_def Let_def split: list.splits)
qed

lemma orphanApp_fields:
  "studyCards orphanApp = [cardHola, cardAdios, cardPi]" "studyIndex orphanApp = 0"
  "cards orphanApp = [cardPi]" "studyCorrect orphanApp = 0" "studyWrong orphanApp = 0"
  by (simp_all add: orphanApp_def sessionApp_def storeApp_def initialApp_def)

text \<open>
  C10. When the current card of the queue has an id that no card of the store has, a
  rating returns and leaves the card collection as it was, while the session moves on
  as always: the index grows by one, the flip flag is cleared and the counter that
  belongs to the rating grows by one; the queue keeps its cards, by id and in order.
  The index, the flip flag, the counters and the ids of the queue are the same as those
  produced by the same rating in any state whose session has the same ids in its queue,
  the same index and the same counters, whatever its store, so also in one where the
  card is found.
\<close>

theorem rating_missing_card_updates_session_only:
  assumes "currentCard st = Some c" and "\<forall>x \<in> set (cards st). card_id x \<noteq> card_id c"
  shows "\<exists>st'. rateCard rating now st = Inr st'
     \<and> cards st' = cards st
     \<and> map card_id (studyCards st') = map card_id (studyCards st)
     \<and> studyIndex st' = studyIndex st + 1
     \<and> isFlipped st' = False
     \<and> studyWrong st' = (if rating = ''hard'' then studyWrong st + 1 else studyWrong st)
     \<and> studyCorrect st' = (if rating = ''hard'' then studyCorrect st else studyCorrect st + 1)
     \<and> (\<forall>st2 st2'. map card_id (studyCards st2) = map card_id (studyCards st)
           \<and> studyIndex st2 = studyIndex st
           \<and> studyCorrect st2 = studyCorrect st \<and> studyWrong st2 = studyWrong st
           \<and> rateCard rating now st2 = Inr st2' \<longrightarrow>
           map card_id (studyCards st2') = map card_id (studyCards st')
           \<and> studyIndex st2' = studyIndex st'
           \<and> isFlipped st2' = isFlipped st'
           \<and> studyCorrect st2' = studyCorrect st' \<and> studyWrong st2' = studyWrong st')"
proof -
  from rateCard_missing[OF assms, of rating now] obtain st'
    where r: "rateCard rating now st = Inr st'" and c: "cards st' = cards st" by blast
  note s = rateCard_session[OF r] and k = rateCard_counters[OF r]
  have other: "map card_id (studyCards st2') = map card_id (studyCards st')
           \<and> studyIndex st2' = studyIndex st'
           \<and> isFlipped st2' = isFlipped st'
           \<and> studyCorrect st2' = studyCorrect st' \<and> studyWrong st2' = studyWrong st'"
    if h: "map card_id (studyCards st2) = map card_id (studyCards st)
           \<and> studyIndex st2 = studyIndex st
           \<and> studyCorrect st2 = studyCorrect st \<and> studyWrong st2 = studyWrong st
           \<and> rateCard rating now st2 = Inr st2'" for st2 st2'
  proof -
    from h have r2: "rateCard rating now st2 = Inr st2'" by simp
    from rateCard_session[OF r2] rateCard_counters[OF r2] s k h show ?thesis by simp
  qed
  from r c s k other show ?thesis by blast
qed

theorem rating_missing_card_updates_session_only_witness:
  "currentCard orphanApp = Some cardHola
   \<and> card_id cardPi \<noteq> card_id cardHola
   \<and> cards orphanApp = [cardPi]
   \<and> (\<exists>st'. rateCard ''easy'' ''2024-02-01T10:00:00.000Z'' orphanApp = Inr st'
        \<and> cards st' = [cardPi]
        \<and> studyIndex st' = 1 \<and> isFlipped st' = False
        \<and> studyWrong st' = 0 \<and> studyCorrect st' = 1)"
proof -
  have h1: "currentCard orphanApp = Some cardHola"
    by (simp add: currentCard_def orphanApp_fields)
  have ids: "card_id cardPi \<noteq> card_id cardHola"
    by (simp add: cardPi_def cardHola_def)
  then have h2: "\<forall>x \<in> set (cards orphanApp). card_id x \<noteq> card_id cardHola"
    by (simp add: orphanApp_fields)
  from rating_missing_card_updates_session_only[OF h1 h2, of "''easy''" "''2024-02-01T10:00:00.000Z''"]
  obtain st' where "rateCard ''easy'' ''2024-02-01T10:00:00.000Z'' orphanApp = Inr st'"
    and "cards st' = cards orphanApp" and "studyIndex st' = studyIndex orphanApp + 1"
    and "isFlipped st' = False"
    and "studyWrong st' = (if ''easy'' = ''hard'' then studyWrong orphanApp + 1 else studyWrong orphanApp)"
    and "studyCorrect st' = (if ''easy'' = ''hard'' then studyCorrect orphanApp else studyCorrect orphanApp + 1)"
    by blast
  then have "\<exists>st'. rateCard ''easy'' ''2024-02-01T10:00:00.000Z'' orphanApp = Inr st'
        \<and> cards st' = [cardPi]
        \<and> studyIndex st' = 1 \<and> isFlipped st' = False
        \<and> studyWrong st' = 0 \<and> studyCorrect st' = 1"
    by (simp add: orphanApp_fields)
  with h1 ids show ?thesis by (simp add: orphanApp_fields)
qed

section \<open>Starting a session\<close>

lemma mset_shuffleLoop:
  "n < length a \<or> n = 0 \<Longrightarrow> mset (shuffleLoop rnd n a) = mset a"
proof (induction n arbitrary: a)
  case 0
  show ?case by simp
next
  case (Suc n)
  let ?j = "rnd (Suc n) mod (Suc n + 1)"
  let ?b = "a[Suc n := a ! ?j, ?j := a ! Suc n]"
  from Suc.prems have len: "Suc n < length a" by simp
  have "?j < Suc n + 1" by simp
  with len have j: "?j < length a" by linarith
  have sw: "mset ?b = mset a"
    using len j by (simp add: mset_swap)
  have "n < length ?b \<or> n = 0" using len by simp
  then have "mset (shuffleLoop rnd n ?b) = mset ?b" by (rule Suc.IH)
  with sw show ?case by (simp add: Let_def)
qed

lemma mset_shuffleArray: "mset (shuffleArray rnd a) = mset a"
  unfolding shuffleArray_def by (rule mset_shuffleLoop) (cases a; simp)

lemma length_shuffleArray: "length (shuffleArray rnd a) = length a"
  using mset_shuffleArray[of rnd a] by (metis size_mset)

lemma mset_insertBy: "mset (insertBy cmp x ys) = add_mset x (mset ys)"
  by (induction ys) simp_all

lemma mset_arraySort: "mset (arraySort cmp xs) = mset xs"
  by (induction xs) (simp_all add: arraySort_def mset_insertBy)






lemma startStudyMode_queue:
  "cards st \<noteq> [] \<Longrightarrow>
   studyCards (startStudyMode rnd st) = shuffleArray rnd (arraySort compareCards (cards st))
   \<and> studyIndex (startStudyMode rnd st) = 0
   \<and> view (startStudyMode rnd st) = ''study''"
  by (simp add: startStudyMode_def resetSession_def)

lemma studyDeck_queue:
  "deckSource d st \<noteq> [] \<Longrightarrow>
   studyCards (studyDeck rnd d st) = shuffleArray rnd (deckSource d st)
   \<and> studyIndex (studyDeck rnd d st) = 0
   \<and> view (studyDeck rnd d st) = ''study''"
  by (simp add: studyDeck_def deckSource_def resetSession_def Let_def)

lemma storeApp_fields:
  "cards storeApp = [cardHola, cardAdios, cardPi]" "decks storeApp = [deckSpanish, deckMaths]"
  "selectedDeck storeApp = Some deckSpanish"
  by (simp_all add: storeApp_def initialApp_def)

lemma deckSource_Spanish: "deckSource deckSpanish storeApp = [cardHola, cardAdios]"
  by (simp add: deckSource_def storeApp_fields deckSpanish_def cardHola_def cardAdios_def cardPi_def)

text \<open>
  C2. Started on a source that is not empty, either start mode stores a queue that is a
  permutation of its source, whatever the random choices of the shuffle: the queue has
  the cards of the source with their multiplicities, hence the same multiset of ids and
  the same length. The source is the whole card collection for \<^verbatim>\<open>startStudyMode\<close> and the
  cards of the deck for \<^verbatim>\<open>studyDeck\<close>.
\<close>

theorem start_queue_is_permutation:
  "(cards st \<noteq> [] \<longrightarrow>
      mset (studyCards (startStudyMode rnd st)) = mset (cards st)
    \<and> mset (map card_id (studyCards (startStudyMode rnd st))) = mset (map card_id (cards st))
    \<and> length (studyCards (startStudyMode rnd st)) = length (cards st))
   \<and> (deckSource d st \<noteq> [] \<longrightarrow>
      mset (studyCards (studyDeck rnd d st)) = mset (deckSource d st)
    \<and> mset (map card_id (studyCards (studyDeck rnd d st))) = mset (map card_id (deckSource d st))
    \<and> length (studyCards (studyDeck rnd d st)) = length (deckSource d st))"
proof (intro conjI impI)
  assume ne: "cards st \<noteq> []"
  have m: "mset (studyCards (startStudyMode rnd st)) = mset (cards st)"
    using startStudyMode_queue[OF ne, of rnd]
    by (simp add: mset_shuffleArray mset_arraySort)
  show "mset (studyCards (startStudyMode rnd st)) = mset (cards st)" by (rule m)
  show "mset (map card_id (studyCards (startStudyMode rnd st))) = mset (map card_id (cards st))"
    using m by (metis mset_map)
  show "length (studyCards (startStudyMode rnd st)) = length (cards st)"
    using m by (metis size_mset)
next
  assume ne: "deckSource d st \<noteq> []"
  have m: "mset (studyCards (studyDeck rnd d st)) = mset (deckSource d st)"
    using studyDeck_queue[OF ne, of rnd] by (simp add: mset_shuffleArray)
  show "mset (studyCards (studyDeck rnd d st)) = mset (deckSource d st)" by (rule m)
  show "mset (map card_id (studyCards (studyDeck rnd d st))) = mset (map card_id (deckSource d st))"
    using m by (metis mset_map)
  show "length (studyCards (studyDeck rnd d st)) = length (deckSource d st)"
    using m by (metis size_mset)
qed

theorem start_queue_is_permutation_witness:
  "cards storeApp \<noteq> []
   \<and> mset (map card_id (studyCards (startStudyMode noSwap storeApp))) = {#''c1'', ''c2'', ''c3''#}
   \<and> length (studyCards (startStudyMode noSwap storeApp)) = 3
   \<and> deckSource deckSpanish storeApp \<noteq> []
   \<and> mset (map card_id (studyCards (studyDeck noSwap deckSpanish storeApp))) = {#''c1'', ''c2''#}
   \<and> length (studyCards (studyDeck noSwap deckSpanish storeApp)) = 2"
proof -
  have h1: "cards storeApp \<noteq> []" by (simp add: storeApp_fields)
  have h2: "deckSource deckSpanish storeApp \<noteq> []" by (simp add: deckSource_Spanish)
  have ids: "map card_id (cards storeApp) = [''c1'', ''c2'', ''c3'']"
    by (simp add: storeApp_fields cardHola_def cardAdios_def cardPi_def)
  have ids2: "map card_id (deckSource deckSpanish storeApp) = [''c1'', ''c2'']"
    by (simp add: deckSource_Spanish cardHola_def cardAdios_def)
  note th = start_queue_is_permutation[of storeApp noSwap deckSpanish]
  from th h1 have a: "mset (map card_id (studyCards (startStudyMode noSwap storeApp)))
      = mset (map card_id (cards storeApp))"
    and b: "length (studyCards (startStudyMode noSwap storeApp)) = length (cards storeApp)"
    by blast+
  from th h2 have c: "mset (map card_id (studyCards (studyDeck noSwap deckSpanish storeApp)))
      = mset (map card_id (deckSource deckSpanish storeApp))"
    and d: "length (studyCards (studyDeck noSwap deckSpanish storeApp))
      = length (deckSource deckSpanish storeApp)"
    by blast+
  have "mset (map card_id (studyCards (startStudyMode noSwap storeApp))) = {#''c1'', ''c2'', ''c3''#}"
    unfolding a ids by simp
  moreover have "length (studyCards (startStudyMode noSwap storeApp)) = 3"
    unfolding b by (simp add: storeApp_fields)
  moreover have "mset (map card_id (studyCards (studyDeck noSwap deckSpanish storeApp))) = {#''c1'', ''c2''#}"
    unfolding c ids2 by simp
  moreover have "length (studyCards (studyDeck noSwap deckSpanish storeApp)) = 2"
    unfolding d by (simp add: deckSource_Spanish)
  ultimately show ?thesis using h1 h2 by blast
qed

section \<open>How the queue is built\<close>

lemma shuffleLoop_noSwap: "shuffleLoop noSwap n a = a"
  by (induction n arbitrary: a) (simp_all add: noSwap_def Let_def)

lemma shuffleArray_noSwap: "shuffleArray noSwap a = a"
  by (simp add: shuffleArray_def shuffleLoop_noSwap)



subsection \<open>The shuffle reaches every arrangement, each by one sequence of draws\<close>

lemma length_shuffleLoop: "length (shuffleLoop rnd n a) = length a"
  by (induction n arbitrary: a) (simp_all add: Let_def)










subsection \<open>The two start modes\<close>




section \<open>Restarting a session\<close>

text \<open>
  A queue is stored by the two start functions and by \<^verbatim>\<open>restartStudy\<close> only, and a rating
  keeps it. So the queue of a session is never empty: a start refuses an empty source.
\<close>

lemma started_queue_not_empty:
  "cards st \<noteq> [] \<Longrightarrow> studyCards (startStudyMode rnd st) \<noteq> []"
  "deckSource d st \<noteq> [] \<Longrightarrow> studyCards (studyDeck rnd d st) \<noteq> []"
  "studyCards st \<noteq> [] \<Longrightarrow> studyCards (restartStudy rnd st) \<noteq> []"
  "studyCards st \<noteq> [] \<Longrightarrow> rateCard rating now st = Inr st' \<Longrightarrow> studyCards st' \<noteq> []"
proof -
  have ne: "shuffleArray r xs \<noteq> []" if "xs \<noteq> []" for r and xs :: "card list"
    using that length_shuffleArray[of r xs] by (metis length_0_conv)
  show "studyCards (startStudyMode rnd st) \<noteq> []" if h: "cards st \<noteq> []"
  proof -
    from h have "mset (arraySort compareCards (cards st)) \<noteq> {#}"
      by (simp add: mset_arraySort)
    then have "arraySort compareCards (cards st) \<noteq> []" by auto
    then show ?thesis using startStudyMode_queue[OF h, of rnd] by (simp add: ne)
  qed
  show "studyCards (studyDeck rnd d st) \<noteq> []" if h: "deckSource d st \<noteq> []"
    using studyDeck_queue[OF h, of rnd] h by (simp add: ne)
  show "studyCards (restartStudy rnd st) \<noteq> []" if "studyCards st \<noteq> []"
    using that by (simp add: restartStudy_def resetSession_def ne)
  show "studyCards st' \<noteq> []" if "studyCards st \<noteq> []" and r: "rateCard rating now st = Inr st'"
    using that rateCard_session[OF r] by (metis length_0_conv)
qed

text \<open>
  C9. In a session in progress or complete (the study view is open and the queue, as
  every started queue, holds a card) \<^verbatim>\<open>restartStudy\<close> stores the shuffle of the current
  queue, a permutation of it that depends on nothing else, sets the index to 0, clears
  the flip flag and both counters, leaves the store alone, and the session is in
  progress again.
\<close>

theorem restart_reshuffles_current_queue:
  assumes "phase st = InProgress \<or> phase st = Complete" and "studyCards st \<noteq> []"
  shows "studyCards (restartStudy rnd st) = shuffleArray rnd (studyCards st)
     \<and> mset (studyCards (restartStudy rnd st)) = mset (studyCards st)
     \<and> studyIndex (restartStudy rnd st) = 0
     \<and> isFlipped (restartStudy rnd st) = False
     \<and> studyCorrect (restartStudy rnd st) = 0
     \<and> studyWrong (restartStudy rnd st) = 0
     \<and> phase (restartStudy rnd st) = InProgress
     \<and> cards (restartStudy rnd st) = cards st"
proof -
  from assms(1) have v: "view st = ''study''"
    by (auto simp: phase_def split: if_splits)
  have q: "studyCards (restartStudy rnd st) = shuffleArray rnd (studyCards st)"
    by (simp add: restartStudy_def resetSession_def)
  have len: "length (studyCards (restartStudy rnd st)) = length (studyCards st)"
    by (simp add: q length_shuffleArray)
  have "phase (restartStudy rnd st) = InProgress"
    using v assms(2) len by (simp add: phase_def restartStudy_def resetSession_def)
  then show ?thesis
    by (simp add: q mset_shuffleArray) (simp add: restartStudy_def resetSession_def)
qed

theorem restart_reshuffles_current_queue_witness:
  "phase doneApp = Complete \<and> studyCards doneApp \<noteq> []
   \<and> studyCards (restartStudy noSwap doneApp) = [cardHola, cardAdios, cardPi]
   \<and> studyIndex (restartStudy noSwap doneApp) = 0
   \<and> isFlipped (restartStudy noSwap doneApp) = False
   \<and> studyCorrect (restartStudy noSwap doneApp) = 0
   \<and> studyWrong (restartStudy noSwap doneApp) = 0
   \<and> phase (restartStudy noSwap doneApp) = InProgress"
proof -
  have f: "studyCards doneApp = [cardHola, cardAdios, cardPi]" "view doneApp = ''study''"
    "studyIndex doneApp = 3"
    by (simp_all add: doneApp_def sessionApp_fields)
  have h1: "phase doneApp = Complete" by (simp add: phase_def f)
  then have h1': "phase doneApp = InProgress \<or> phase doneApp = Complete" by simp
  have h2: "studyCards doneApp \<noteq> []" by (simp add: f)
  from restart_reshuffles_current_queue[OF h1' h2, of noSwap] h1 h2
  show ?thesis by (simp add: shuffleArray_noSwap f)
qed

section \<open>The index of a session\<close>

lemma showToast_fields:
  "sessionFields (showToast msg ty st) = sessionFields st"
  "storeFields (showToast msg ty st) = storeFields st"
  "view (showToast msg ty st) = view st"
  "selectedDeck (showToast msg ty st) = selectedDeck st"
  by (simp_all add: showToast_def sessionFields_def storeFields_def Let_def)

lemma sessionInv_fields: "sessionFields a = sessionFields b \<Longrightarrow> sessionInv a = sessionInv b"
  by (simp add: sessionFields_def sessionInv_def)

lemma sessionInv_reset: "sessionInv (resetSession q st)"
  by (simp add: sessionInv_def resetSession_def)

lemma sessionInv_start: "sessionInv st \<or> cards st \<noteq> [] \<Longrightarrow> sessionInv (startStudyMode rnd st)"
proof (cases "cards st = []")
  case True
  assume "sessionInv st \<or> cards st \<noteq> []"
  with True have "sessionInv st" by simp
  moreover have "startStudyMode rnd st
      = showToast ''No cards to study! Create some cards first.'' ''error'' st"
    using True by (simp add: startStudyMode_def)
  ultimately show ?thesis using sessionInv_fields[OF showToast_fields(1)] by simp
next
  case False
  then show ?thesis
    by (simp add: startStudyMode_def sessionInv_def resetSession_def)
qed

lemma sessionInv_studyDeck:
  "sessionInv st \<or> deckSource d st \<noteq> [] \<Longrightarrow> sessionInv (studyDeck rnd d st)"
proof (cases "deckSource d st = []")
  case True
  assume "sessionInv st \<or> deckSource d st \<noteq> []"
  with True have "sessionInv st" by simp
  moreover have "studyDeck rnd d st = showToast ''No cards in this deck!'' ''error'' st"
    using True by (simp add: studyDeck_def deckSource_def)
  ultimately show ?thesis using sessionInv_fields[OF showToast_fields(1)] by simp
next
  case False
  then show ?thesis
    by (simp add: studyDeck_def deckSource_def sessionInv_def resetSession_def Let_def)
qed

text \<open>
  C6. The index of a session lies between 0 and the length of the queue. This holds
  after a start that finds cards, in either mode, and it is kept by every operation of
  a session: a start, flipping, restarting, leaving, and rating while a current card is
  available (the rating then returns). With the index in range the test that
  \<^verbatim>\<open>rateCard\<close> makes for the end of the queue holds exactly when the index equals the
  length of the queue, and so an open session is complete exactly then.
\<close>

theorem session_index_stays_in_range:
  "(cards st \<noteq> [] \<longrightarrow> sessionInv (startStudyMode rnd st))
   \<and> (deckSource d st \<noteq> [] \<longrightarrow> sessionInv (studyDeck rnd d st))
   \<and> (sessionInv st \<longrightarrow>
         sessionInv (startStudyMode rnd st)
       \<and> sessionInv (studyDeck rnd d st)
       \<and> sessionInv (flipCard st)
       \<and> sessionInv (restartStudy rnd st)
       \<and> sessionInv (exitStudy st)
       \<and> (currentCard st \<noteq> None \<longrightarrow>
            (\<exists>st'. rateCard rating now st = Inr st' \<and> sessionInv st'))
       \<and> (int (length (studyCards st)) \<le> studyIndex st)
            = (studyIndex st = int (length (studyCards st)))
       \<and> (view st = ''study'' \<longrightarrow>
            (phase st = Complete) = (studyIndex st = int (length (studyCards st)))))"
proof (intro conjI impI)
  assume "cards st \<noteq> []"
  then show "sessionInv (startStudyMode rnd st)" by (simp add: sessionInv_start)
next
  assume "deckSource d st \<noteq> []"
  then show "sessionInv (studyDeck rnd d st)" by (simp add: sessionInv_studyDeck)
next
  assume inv: "sessionInv st"
  show "sessionInv (startStudyMode rnd st)" using inv by (simp add: sessionInv_start)
  show "sessionInv (studyDeck rnd d st)" using inv by (simp add: sessionInv_studyDeck)
  show "sessionInv (flipCard st)" using inv by (simp add: sessionInv_def flipCard_def)
  show "sessionInv (restartStudy rnd st)" by (simp add: restartStudy_def sessionInv_reset)
  show "sessionInv (exitStudy st)" using inv by (simp add: sessionInv_def exitStudy_def)
  show "(int (length (studyCards st)) \<le> studyIndex st)
            = (studyIndex st = int (length (studyCards st)))"
    using inv by (auto simp: sessionInv_def)
  show "(phase st = Complete) = (studyIndex st = int (length (studyCards st)))"
    if "view st = ''study''"
    using inv that by (auto simp: sessionInv_def phase_def)
  show "\<exists>st'. rateCard rating now st = Inr st' \<and> sessionInv st'"
    if cur: "currentCard st \<noteq> None"
  proof -
    from cur have b: "0 \<le> studyIndex st" "studyIndex st < int (length (studyCards st))"
      by (simp_all add: currentCard_def split: if_splits)
    from rateCard_current[OF b, of rating now] obtain st'
      where r: "rateCard rating now st = Inr st'"
        and i: "studyIndex st' = studyIndex st + 1"
        and q: "length (studyCards st') = length (studyCards st)" by blast
    have "sessionInv st'" using b i q by (simp add: sessionInv_def)
    with r show ?thesis by blast
  qed
qed

theorem session_index_stays_in_range_witness:
  "cards sessionApp \<noteq> [] \<and> deckSource deckSpanish sessionApp \<noteq> []
   \<and> sessionInv sessionApp \<and> currentCard sessionApp \<noteq> None \<and> view sessionApp = ''study''
   \<and> sessionInv (startStudyMode noSwap sessionApp)
   \<and> sessionInv (studyDeck noSwap deckSpanish sessionApp)
   \<and> sessionInv (flipCard sessionApp)
   \<and> sessionInv (restartStudy noSwap sessionApp)
   \<and> sessionInv (exitStudy sessionApp)
   \<and> (\<exists>st'. rateCard ''easy'' ''2024-02-01T10:00:00.000Z'' sessionApp = Inr st' \<and> sessionInv st')
   \<and> phase sessionApp \<noteq> Complete"
proof -
  have h1: "cards sessionApp \<noteq> []" by (simp add: sessionApp_fields)
  have h2: "deckSource deckSpanish sessionApp \<noteq> []"
    by (simp add: deckSource_def sessionApp_fields deckSpanish_def cardHola_def)
  have h3: "sessionInv sessionApp" by (simp add: sessionInv_def sessionApp_fields)
  have h4: "currentCard sessionApp \<noteq> None" by (simp add: currentCard_def sessionApp_fields)
  have h5: "view sessionApp = ''study''" by (simp add: sessionApp_fields)
  have h6: "studyIndex sessionApp \<noteq> int (length (studyCards sessionApp))"
    by (simp add: sessionApp_fields)
  from session_index_stays_in_range[of sessionApp noSwap deckSpanish "''easy''"
      "''2024-02-01T10:00:00.000Z''"] h1 h2 h3 h4 h5 h6
  show ?thesis by blast
qed

section \<open>Deleting a deck\<close>

lemma confirm_deleteDeck:
  "cards (confirmAction (deleteDeck did st)) = filter (\<lambda>c. deckId c \<noteq> did) (cards st)"
  "decks (confirmAction (deleteDeck did st)) = filter (\<lambda>d. deck_id d \<noteq> did) (decks st)"
  "selectedDeck (confirmAction (deleteDeck did st)) =
     (case selectedDeck st of
        None \<Rightarrow> None
      | Some s \<Rightarrow> if deck_id s = did then None else Some s)"
  by (simp_all add: confirmAction_def deleteDeck_def showToast_def Let_def split: option.splits)

text \<open>
  C5. Deleting a deck D of the store (\<^verbatim>\<open>deleteDeck\<close>, then the confirmation) removes D
  from the decks, where exactly the decks with another id stay; it removes every card
  whose \<^verbatim>\<open>deckId\<close> is the id of D and keeps all other cards, unchanged and in their
  order; and it clears the selection when the selected deck has the id of D and leaves
  it as it is otherwise. Before the confirmation nothing is deleted.
\<close>

theorem delete_deck_cascades_to_its_cards:
  assumes "D \<in> set (decks st)"
  shows "D \<notin> set (decks (confirmAction (deleteDeck (deck_id D) st)))
     \<and> decks (confirmAction (deleteDeck (deck_id D) st))
         = filter (\<lambda>d. deck_id d \<noteq> deck_id D) (decks st)
     \<and> cards (confirmAction (deleteDeck (deck_id D) st))
         = filter (\<lambda>c. deckId c \<noteq> deck_id D) (cards st)
     \<and> (\<forall>c \<in> set (cards (confirmAction (deleteDeck (deck_id D) st))). deckId c \<noteq> deck_id D)
     \<and> (\<forall>c \<in> set (cards st). deckId c \<noteq> deck_id D \<longrightarrow>
           c \<in> set (cards (confirmAction (deleteDeck (deck_id D) st))))
     \<and> selectedDeck (confirmAction (deleteDeck (deck_id D) st))
         = (case selectedDeck st of
              None \<Rightarrow> None
            | Some s \<Rightarrow> if deck_id s = deck_id D then None else Some s)
     \<and> cards (deleteDeck (deck_id D) st) = cards st
     \<and> decks (deleteDeck (deck_id D) st) = decks st"
  using assms by (simp add: confirm_deleteDeck) (simp add: deleteDeck_def)

theorem delete_deck_cascades_to_its_cards_witness:
  "deckSpanish \<in> set (decks storeApp)
   \<and> decks (confirmAction (deleteDeck (deck_id deckSpanish) storeApp)) = [deckMaths]
   \<and> cards (confirmAction (deleteDeck (deck_id deckSpanish) storeApp)) = [cardPi]
   \<and> selectedDeck (confirmAction (deleteDeck (deck_id deckSpanish) storeApp)) = None
   \<and> deckMaths \<in> set (decks storeApp)
   \<and> cards (confirmAction (deleteDeck (deck_id deckMaths) storeApp)) = [cardHola, cardAdios]
   \<and> selectedDeck (confirmAction (deleteDeck (deck_id deckMaths) storeApp)) = Some deckSpanish"
proof -
  have h1: "deckSpanish \<in> set (decks storeApp)" and h2: "deckMaths \<in> set (decks storeApp)"
    by (simp_all add: storeApp_fields)
  have ids: "deck_id deckSpanish = ''d1''" "deck_id deckMaths = ''d2''"
    "deckId cardHola = ''d1''" "deckId cardAdios = ''d1''" "deckId cardPi = ''d2''"
    by (simp_all add: deckSpanish_def deckMaths_def cardHola_def cardAdios_def cardPi_def)
  from delete_deck_cascades_to_its_cards[OF h1]
  have a: "decks (confirmAction (deleteDeck (deck_id deckSpanish) storeApp)) = [deckMaths]
     \<and> cards (confirmAction (deleteDeck (deck_id deckSpanish) storeApp)) = [cardPi]
     \<and> selectedDeck (confirmAction (deleteDeck (deck_id deckSpanish) storeApp)) = None"
    by (simp add: storeApp_fields ids)
  from delete_deck_cascades_to_its_cards[OF h2]
  have b: "cards (confirmAction (deleteDeck (deck_id deckMaths) storeApp)) = [cardHola, cardAdios]
     \<and> selectedDeck (confirmAction (deleteDeck (deck_id deckMaths) storeApp)) = Some deckSpanish"
    by (simp add: storeApp_fields ids)
  from h1 h2 a b show ?thesis by blast
qed

section \<open>Starting with nothing to study\<close>

text \<open>
  C7. When there is no card at all (\<^verbatim>\<open>startStudyMode\<close>) or no card of the deck
  (\<^verbatim>\<open>studyDeck\<close>), a start only shows a toast of type \<^verbatim>\<open>error\<close>: the view, the queue, the
  index, the flip flag and both counters, the decks, the cards, \<^verbatim>\<open>totalSessions\<close> and
  the persisted data are what they were, and the watcher has nothing to save.
\<close>

theorem empty_source_reports_and_starts_nothing:
  "(cards st = [] \<longrightarrow>
      startStudyMode rnd st
        = showToast ''No cards to study! Create some cards first.'' ''error'' st
    \<and> toasts (startStudyMode rnd st)
        = toasts st @ [\<lparr>toast_id = toastId st + 1,
                        message = ''No cards to study! Create some cards first.'',
                        toast_type = ''error'', icon = ''fas fa-circle-exclamation''\<rparr>]
    \<and> view (startStudyMode rnd st) = view st
    \<and> sessionFields (startStudyMode rnd st) = sessionFields st
    \<and> storeFields (startStudyMode rnd st) = storeFields st
    \<and> watch st (startStudyMode rnd st) = startStudyMode rnd st)
   \<and> (deckSource d st = [] \<longrightarrow>
      studyDeck rnd d st = showToast ''No cards in this deck!'' ''error'' st
    \<and> toasts (studyDeck rnd d st)
        = toasts st @ [\<lparr>toast_id = toastId st + 1, message = ''No cards in this deck!'',
                        toast_type = ''error'', icon = ''fas fa-circle-exclamation''\<rparr>]
    \<and> view (studyDeck rnd d st) = view st
    \<and> sessionFields (studyDeck rnd d st) = sessionFields st
    \<and> storeFields (studyDeck rnd d st) = storeFields st
    \<and> watch st (studyDeck rnd d st) = studyDeck rnd d st)"
proof (intro conjI impI)
  assume e: "cards st = []"
  show a: "startStudyMode rnd st
        = showToast ''No cards to study! Create some cards first.'' ''error'' st"
    using e by (simp add: startStudyMode_def)
  show "toasts (startStudyMode rnd st)
        = toasts st @ [\<lparr>toast_id = toastId st + 1,
                        message = ''No cards to study! Create some cards first.'',
                        toast_type = ''error'', icon = ''fas fa-circle-exclamation''\<rparr>]"
    unfolding a by (simp add: showToast_def iconMap_def Let_def)
  show "view (startStudyMode rnd st) = view st" unfolding a by (rule showToast_fields)
  show "sessionFields (startStudyMode rnd st) = sessionFields st"
    unfolding a by (rule showToast_fields)
  show s: "storeFields (startStudyMode rnd st) = storeFields st"
    unfolding a by (rule showToast_fields)
  show "watch st (startStudyMode rnd st) = startStudyMode rnd st"
    using s by (simp add: watch_def storeFields_def)
next
  assume e: "deckSource d st = []"
  show a: "studyDeck rnd d st = showToast ''No cards in this deck!'' ''error'' st"
    using e by (simp add: studyDeck_def deckSource_def)
  show "toasts (studyDeck rnd d st)
        = toasts st @ [\<lparr>toast_id = toastId st + 1, message = ''No cards in this deck!'',
                        toast_type = ''error'', icon = ''fas fa-circle-exclamation''\<rparr>]"
    unfolding a by (simp add: showToast_def iconMap_def Let_def)
  show "view (studyDeck rnd d st) = view st" unfolding a by (rule showToast_fields)
  show "sessionFields (studyDeck rnd d st) = sessionFields st"
    unfolding a by (rule showToast_fields)
  show s: "storeFields (studyDeck rnd d st) = storeFields st"
    unfolding a by (rule showToast_fields)
  show "watch st (studyDeck rnd d st) = studyDeck rnd d st"
    using s by (simp add: watch_def storeFields_def)
qed

theorem empty_source_reports_and_starts_nothing_witness:
  "cards initialApp = []
   \<and> view (startStudyMode noSwap initialApp) = ''decks''
   \<and> sessionFields (startStudyMode noSwap initialApp) = ([], 0, False, 0, 0)
   \<and> storeFields (startStudyMode noSwap initialApp) = ([], [], 0, None)
   \<and> length (toasts (startStudyMode noSwap initialApp)) = 1
   \<and> deckSource deckMaths orphanApp \<noteq> []
   \<and> deckSource deckSpanish orphanApp = []
   \<and> view (studyDeck noSwap deckSpanish orphanApp) = ''study''
   \<and> sessionFields (studyDeck noSwap deckSpanish orphanApp) = sessionFields orphanApp
   \<and> storeFields (studyDeck noSwap deckSpanish orphanApp) = storeFields orphanApp
   \<and> length (toasts (studyDeck noSwap deckSpanish orphanApp)) = 1"
proof -
  have h1: "cards initialApp = []" by (simp add: initialApp_def)
  have h2: "deckSource deckSpanish orphanApp = []"
    by (simp add: deckSource_def orphanApp_fields deckSpanish_def cardPi_def)
  have h3: "deckSource deckMaths orphanApp \<noteq> []"
    by (simp add: deckSource_def orphanApp_fields deckMaths_def cardPi_def)
  have f: "view initialApp = ''decks''" "sessionFields initialApp = ([], 0, False, 0, 0)"
    "storeFields initialApp = ([], [], 0, None)" "toasts initialApp = []"
    by (simp_all add: initialApp_def sessionFields_def storeFields_def)
  have g: "view orphanApp = ''study''" "toasts orphanApp = []"
    by (simp_all add: orphanApp_def sessionApp_def storeApp_def initialApp_def)
  note th1 = empty_source_reports_and_starts_nothing[of initialApp noSwap deckSpanish]
  note th2 = empty_source_reports_and_starts_nothing[of orphanApp noSwap deckSpanish]
  from th1 h1 have a1: "view (startStudyMode noSwap initialApp) = view initialApp"
    and a2: "sessionFields (startStudyMode noSwap initialApp) = sessionFields initialApp"
    and a3: "storeFields (startStudyMode noSwap initialApp) = storeFields initialApp"
    and a4: "toasts (startStudyMode noSwap initialApp)
        = toasts initialApp @ [\<lparr>toast_id = toastId initialApp + 1,
                        message = ''No cards to study! Create some cards first.'',
                        toast_type = ''error'', icon = ''fas fa-circle-exclamation''\<rparr>]"
    by blast+
  have a: "view (startStudyMode noSwap initialApp) = ''decks''
     \<and> sessionFields (startStudyMode noSwap initialApp) = ([], 0, False, 0, 0)
     \<and> storeFields (startStudyMode noSwap initialApp) = ([], [], 0, None)
     \<and> length (toasts (startStudyMode noSwap initialApp)) = 1"
    unfolding a1 a2 a3 a4 by (simp add: f)
  from th2 h2 have b1: "view (studyDeck noSwap deckSpanish orphanApp) = view orphanApp"
    and b2: "sessionFields (studyDeck noSwap deckSpanish orphanApp) = sessionFields orphanApp"
    and b3: "storeFields (studyDeck noSwap deckSpanish orphanApp) = storeFields orphanApp"
    and b4: "toasts (studyDeck noSwap deckSpanish orphanApp)
        = toasts orphanApp @ [\<lparr>toast_id = toastId orphanApp + 1,
                        message = ''No cards in this deck!'',
                        toast_type = ''error'', icon = ''fas fa-circle-exclamation''\<rparr>]"
    by blast+
  have b: "view (studyDeck noSwap deckSpanish orphanApp) = ''study''
     \<and> sessionFields (studyDeck noSwap deckSpanish orphanApp) = sessionFields orphanApp
     \<and> storeFields (studyDeck noSwap deckSpanish orphanApp) = storeFields orphanApp
     \<and> length (toasts (studyDeck noSwap deckSpanish orphanApp)) = 1"
    unfolding b1 b2 b3 b4 by (simp add: g)
  from h1 h2 h3 a b show ?thesis by blast
qed

section \<open>Saving a form\<close>

lemma trim_examples:
  "trim [] = []" "trim (asText ''  '') = []"
  "trim (asText '' gracias'') = asText ''gracias''"
  "trim (asText ''thanks '') = asText ''thanks''"
  by (simp_all add: trim_def asText_def isWhiteSpace_def)

text \<open>
  C8. \<^verbatim>\<open>saveDeck\<close> with a name that is empty after trimming, and \<^verbatim>\<open>saveCard\<close> with a front
  or a back that is empty after trimming, return with the whole state as it was, for a
  creation and for an update alike: no collection has changed, no toast is shown and
  the watcher saves nothing. A creation of a card that goes through appends one card
  with the difficulty \<^verbatim>\<open>new\<close>, the review count 0 and no date of a last review.
\<close>

theorem empty_text_aborts_and_new_card_is_fresh:
  "(trim (form_name (deckForm st)) = [] \<longrightarrow>
      saveDeck newId now st = st \<and> watch st (saveDeck newId now st) = st)
   \<and> (trim (form_front (cardForm st)) = [] \<or> trim (form_back (cardForm st)) = [] \<longrightarrow>
      saveCard newId now st = Inr st \<and> watch st st = st)
   \<and> (trim (form_front (cardForm st)) \<noteq> [] \<and> trim (form_back (cardForm st)) \<noteq> []
        \<and> editingCard st = None \<and> selectedDeck st = Some d \<longrightarrow>
        (\<exists>st'. saveCard newId now st = Inr st'
           \<and> cards st' = cards st @
               [\<lparr>card_id = newId, deckId = deck_id d,
                 card_front = trim (form_front (cardForm st)),
                 card_back = trim (form_back (cardForm st)),
                 difficulty = Some ''new'', reviewCount = Some 0,
                 lastReviewed = None, createdAt = now\<rparr>]
           \<and> decks st' = decks st))"
proof (intro conjI impI)
  assume e: "trim (form_name (deckForm st)) = []"
  then show a: "saveDeck newId now st = st" by (simp add: saveDeck_def Let_def)
  show "watch st (saveDeck newId now st) = st" unfolding a by (simp add: watch_def)
next
  assume "trim (form_front (cardForm st)) = [] \<or> trim (form_back (cardForm st)) = []"
  then show "saveCard newId now st = Inr st" by (auto simp: saveCard_def Let_def)
  show "watch st st = st" by (simp add: watch_def)
next
  assume "trim (form_front (cardForm st)) \<noteq> [] \<and> trim (form_back (cardForm st)) \<noteq> []
        \<and> editingCard st = None \<and> selectedDeck st = Some d"
  then show "\<exists>st'. saveCard newId now st = Inr st'
           \<and> cards st' = cards st @
               [\<lparr>card_id = newId, deckId = deck_id d,
                 card_front = trim (form_front (cardForm st)),
                 card_back = trim (form_back (cardForm st)),
                 difficulty = Some ''new'', reviewCount = Some 0,
                 lastReviewed = None, createdAt = now\<rparr>]
           \<and> decks st' = decks st"
    by (simp add: saveCard_def showToast_def Let_def)
qed

theorem empty_text_aborts_and_new_card_is_fresh_witness:
  "trim (form_name (deckForm blankApp)) = []
   \<and> saveDeck ''n9'' ''2024-03-01T00:00:00.000Z'' blankApp = blankApp
   \<and> trim (form_front (cardForm blankApp)) = []
   \<and> saveCard ''n9'' ''2024-03-01T00:00:00.000Z'' blankApp = Inr blankApp
   \<and> trim (form_front (cardForm formApp)) \<noteq> [] \<and> trim (form_back (cardForm formApp)) \<noteq> []
   \<and> editingCard formApp = None \<and> selectedDeck formApp = Some deckSpanish
   \<and> (\<exists>st'. saveCard ''n9'' ''2024-03-01T00:00:00.000Z'' formApp = Inr st'
        \<and> cards st' = [cardHola, cardAdios, cardPi,
              \<lparr>card_id = ''n9'', deckId = ''d1'', card_front = asText ''gracias'',
                card_back = asText ''thanks'', difficulty = Some ''new'',
                reviewCount = Some 0, lastReviewed = None,
                createdAt = ''2024-03-01T00:00:00.000Z''\<rparr>])"
proof -
  have bf: "form_name (deckForm blankApp) = asText ''  ''"
    "form_front (cardForm blankApp) = asText ''  ''"
    by (simp_all add: blankApp_def)
  have ff: "form_front (cardForm formApp) = asText '' gracias''"
    "form_back (cardForm formApp) = asText ''thanks ''"
    "editingCard formApp = None" "selectedDeck formApp = Some deckSpanish"
    "cards formApp = [cardHola, cardAdios, cardPi]"
    by (simp_all add: formApp_def storeApp_def initialApp_def)
  have h1: "trim (form_name (deckForm blankApp)) = []" by (simp add: bf trim_examples)
  have h2: "trim (form_front (cardForm blankApp)) = []" by (simp add: bf trim_examples)
  have h3: "trim (form_front (cardForm formApp)) \<noteq> [] \<and> trim (form_back (cardForm formApp)) \<noteq> []"
    unfolding ff trim_examples by (simp_all add: asText_def)
  note tb = empty_text_aborts_and_new_card_is_fresh[of blankApp "''n9''" "''2024-03-01T00:00:00.000Z''" deckSpanish]
  note tf = empty_text_aborts_and_new_card_is_fresh[of formApp "''n9''" "''2024-03-01T00:00:00.000Z''" deckSpanish]
  from tb h1 have a: "saveDeck ''n9'' ''2024-03-01T00:00:00.000Z'' blankApp = blankApp" by blast
  from tb h2 have b: "saveCard ''n9'' ''2024-03-01T00:00:00.000Z'' blankApp = Inr blankApp" by blast
  from tf h3 ff(3,4) have "\<exists>st'. saveCard ''n9'' ''2024-03-01T00:00:00.000Z'' formApp = Inr st'
           \<and> cards st' = cards formApp @
               [\<lparr>card_id = ''n9'', deckId = deck_id deckSpanish,
                 card_front = trim (form_front (cardForm formApp)),
                 card_back = trim (form_back (cardForm formApp)),
                 difficulty = Some ''new'', reviewCount = Some 0,
                 lastReviewed = None, createdAt = ''2024-03-01T00:00:00.000Z''\<rparr>]"
    by blast
  then have c: "\<exists>st'. saveCard ''n9'' ''2024-03-01T00:00:00.000Z'' formApp = Inr st'
        \<and> cards st' = [cardHola, cardAdios, cardPi,
              \<lparr>card_id = ''n9'', deckId = ''d1'', card_front = asText ''gracias'',
                card_back = asText ''thanks'', difficulty = Some ''new'',
                reviewCount = Some 0, lastReviewed = None,
                createdAt = ''2024-03-01T00:00:00.000Z''\<rparr>]"
    by (simp add: ff trim_examples deckSpanish_def)
  from h1 a h2 b h3 ff(3,4) c show ?thesis by blast
qed

end
